theory Spec2Isabelle
  imports Main "HOL-Library.Word" "HOL-Library.Sublist"
begin

section \<open>Python values shared by the modules\<close>

text \<open>
  A Python \<open>str\<close> is modelled as a \<open>string\<close> whose characters are code points below 256;
  a \<open>bytes\<close> object is a list of 8-bit words. Exceptions are values: a function that can
  raise returns \<open>py_exn + 'a\<close>, with \<open>Inl\<close> for the exception.
\<close>

type_synonym byte = "8 word"

datatype py_exn =
    ValueError string
  | TypeError string
  | JWTError string
  | ClientError string
  | AttributeError string
  | KeyError string
  | DecodeError string

text \<open>\<open>str.isspace\<close> on the code points below 256.\<close>

definition is_space :: "char \<Rightarrow> bool" where
  "is_space c =
     (let n = (of_char c :: nat)
      in (9 \<le> n \<and> n \<le> 13) \<or> (28 \<le> n \<and> n \<le> 32) \<or> n = 133 \<or> n = 160)"

text \<open>\<open>s.split()\<close>: the maximal runs of characters that are not whitespace.\<close>

fun split_go :: "string \<Rightarrow> string \<Rightarrow> string list" where
  "split_go w [] = (if w = [] then [] else [w])"
| "split_go w (c # cs) =
     (if is_space c then (if w = [] then split_go [] cs else w # split_go [] cs)
      else split_go (w @ [c]) cs)"

definition py_split :: "string \<Rightarrow> string list" where
  "py_split s = split_go [] s"

text \<open>\<open>sep.join(xs)\<close>.\<close>

fun py_join :: "string \<Rightarrow> string list \<Rightarrow> string" where
  "py_join sep [] = []"
| "py_join sep [x] = x"
| "py_join sep (x # y # ys) = x @ sep @ py_join sep (y # ys)"

text \<open>\<open>s.rstrip(chars)\<close>: drops every trailing character that occurs in \<open>chars\<close>.\<close>

definition rstrip :: "string \<Rightarrow> string \<Rightarrow> string" where
  "rstrip chars s = rev (dropWhile (\<lambda>c. c \<in> set chars) (rev s))"

text \<open>\<open>s.encode("utf-8")\<close> on code points below 256: one byte below 128, two bytes above.\<close>

definition utf8_encode :: "string \<Rightarrow> byte list" where
  "utf8_encode s =
     concat (map (\<lambda>c. let n = (of_char c :: nat)
                       in if n < 128 then [of_nat n]
                          else [of_nat (192 + n div 64), of_nat (128 + n mod 64)]) s)"

text \<open>\<open>str.isascii\<close>.\<close>

definition is_ascii :: "string \<Rightarrow> bool" where
  "is_ascii s = list_all (\<lambda>c. (of_char c :: nat) < 128) s"

section \<open>base64 and secrets\<close>

text \<open>
  \<open>base64.urlsafe_b64encode\<close> (RFC 4648, section 5): three bytes give four characters of
  the URL-safe alphabet; a last group of one or two bytes is padded with \<open>=\<close>.
\<close>

definition b64_alphabet :: string where
  "b64_alphabet = ''ABCDEFGHIJKLMNOPQRSTUVWXYZabcdefghijklmnopqrstuvwxyz0123456789-_''"

definition b64_char :: "nat \<Rightarrow> char" where
  "b64_char n = b64_alphabet ! n"

fun urlsafe_b64encode :: "byte list \<Rightarrow> string" where
  "urlsafe_b64encode [] = []"
| "urlsafe_b64encode [a] =
     [b64_char (unat a div 4), b64_char ((unat a mod 4) * 16), CHR ''='', CHR ''='']"
| "urlsafe_b64encode [a, b] =
     [b64_char (unat a div 4), b64_char ((unat a mod 4) * 16 + unat b div 16),
      b64_char ((unat b mod 16) * 4), CHR ''='']"
| "urlsafe_b64encode (a # b # c # rest) =
     [b64_char (unat a div 4), b64_char ((unat a mod 4) * 16 + unat b div 16),
      b64_char ((unat b mod 16) * 4 + unat c div 64), b64_char (unat c mod 64)]
     @ urlsafe_b64encode rest"

text \<open>
  The operating system's random bytes are an input of every call that draws them:
  \<open>rnd i\<close> is the \<open>i\<close>-th byte read. \<open>secrets.token_bytes(n)\<close> raises \<open>ValueError\<close> on a
  negative \<open>n\<close>.
\<close>

definition token_bytes :: "(nat \<Rightarrow> byte) \<Rightarrow> int \<Rightarrow> py_exn + byte list" where
  "token_bytes rnd n =
     (if n < 0 then Inl (ValueError ''negative argument not allowed'')
      else Inr (map rnd [0..<nat n]))"

text \<open>\<open>secrets.token_urlsafe(n)\<close>, for the non-negative constants the code passes.\<close>

definition token_urlsafe :: "(nat \<Rightarrow> byte) \<Rightarrow> nat \<Rightarrow> string" where
  "token_urlsafe rnd n = rstrip ''='' (urlsafe_b64encode (map rnd [0..<n]))"

text \<open>
  \<open>secrets.compare_digest\<close> on two \<open>str\<close>: equality in constant time, and a \<open>TypeError\<close>
  when either string has a character outside ASCII.
\<close>

definition compare_digest :: "string \<Rightarrow> string \<Rightarrow> py_exn + bool" where
  "compare_digest a b =
     (if is_ascii a \<and> is_ascii b then Inr (a = b)
      else Inl (TypeError ''comparing strings with non-ASCII characters is not supported''))"

section \<open>oauth/pkce.py\<close>

text \<open>The characters of a URL-safe string: letters, digits, \<open>-\<close> and \<open>_\<close>.\<close>

definition is_urlsafe :: "char \<Rightarrow> bool" where
  "is_urlsafe c =
     (let n = (of_char c :: nat)
      in (65 \<le> n \<and> n \<le> 90) \<or> (97 \<le> n \<and> n \<le> 122) \<or> (48 \<le> n \<and> n \<le> 57)
         \<or> n = 45 \<or> n = 95)"

definition generate_code_verifier :: "(nat \<Rightarrow> byte) \<Rightarrow> int \<Rightarrow> py_exn + string" where
  "generate_code_verifier rnd length_arg =
     (case token_bytes rnd length_arg of
        Inl e \<Rightarrow> Inl e
      | Inr random_bytes \<Rightarrow>
          (let verifier = rstrip ''='' (urlsafe_b64encode random_bytes)
           in Inr (take 128 verifier)))"

text \<open>
  \<open>hashlib.sha256(...).digest()\<close> is the parameter \<open>sha256\<close>: the theorems hold for every
  digest function.
\<close>

definition generate_code_challenge ::
  "(byte list \<Rightarrow> byte list) \<Rightarrow> string \<Rightarrow> string \<Rightarrow> py_exn + string" where
  "generate_code_challenge sha256 verifier method =
     (if method = ''plain'' then Inr verifier
      else if method = ''S256'' then
        (let digest = sha256 (utf8_encode verifier);
             challenge = rstrip ''='' (urlsafe_b64encode digest)
         in Inr challenge)
      else Inl (ValueError (''Unsupported code challenge method: '' @ method)))"

definition verify_code_challenge ::
  "(byte list \<Rightarrow> byte list) \<Rightarrow> string \<Rightarrow> string \<Rightarrow> string \<Rightarrow> py_exn + bool" where
  "verify_code_challenge sha256 verifier challenge method =
     (case generate_code_challenge sha256 verifier method of
        Inl e \<Rightarrow> Inl e
      | Inr expected_challenge \<Rightarrow> compare_digest expected_challenge challenge)"

text \<open>A sample entropy source and a sample digest, for the concrete instances below.\<close>

definition zero_rnd :: "nat \<Rightarrow> byte" where
  "zero_rnd i = 0"

definition sample_sha256 :: "byte list \<Rightarrow> byte list" where
  "sample_sha256 bs = take 32 (bs @ replicate 32 0)"

section \<open>JSON values and Python dictionaries\<close>

text \<open>
  The value \<open>json.loads\<close> returns, with integers for numbers. A \<open>dict\<close> is an association
  list read with \<open>map_of\<close>; Python's \<open>None\<close> is \<open>JNull\<close>.
\<close>

datatype json =
    JNull
  | JBool bool
  | JNum int
  | JStr string
  | JArr "json list"
  | JObj "(string \<times> json) list"

text \<open>\<open>d.get(k)\<close> and \<open>d.get(k, default)\<close>.\<close>

definition dict_get :: "(string \<times> json) list \<Rightarrow> string \<Rightarrow> json" where
  "dict_get d k = (case map_of d k of None \<Rightarrow> JNull | Some v \<Rightarrow> v)"

definition dict_get_default :: "(string \<times> json) list \<Rightarrow> string \<Rightarrow> json \<Rightarrow> json" where
  "dict_get_default d k dflt = (case map_of d k of None \<Rightarrow> dflt | Some v \<Rightarrow> v)"

text \<open>Truth value testing: what \<open>if not x\<close> tests.\<close>

fun truthy :: "json \<Rightarrow> bool" where
  "truthy JNull = False"
| "truthy (JBool b) = b"
| "truthy (JNum n) = (n \<noteq> 0)"
| "truthy (JStr s) = (s \<noteq> [])"
| "truthy (JArr xs) = (xs \<noteq> [])"
| "truthy (JObj d) = (d \<noteq> [])"

text \<open>\<open>a or b\<close> on two optional strings, as in \<open>headers.get(k1) or headers.get(k2)\<close>.\<close>

definition str_or :: "string option \<Rightarrow> string option \<Rightarrow> string option" where
  "str_or a b = (case a of Some (c # cs) \<Rightarrow> Some (c # cs) | _ \<Rightarrow> b)"

text \<open>\<open>if not s\<close> on an optional string: absent or empty.\<close>

definition str_falsy :: "string option \<Rightarrow> bool" where
  "str_falsy a = (case a of None \<Rightarrow> True | Some s \<Rightarrow> s = [])"

text \<open>\<open>str.lower\<close> on the code points below 256.\<close>

definition lower_char :: "char \<Rightarrow> char" where
  "lower_char c =
     (let n = (of_char c :: nat)
      in if (65 \<le> n \<and> n \<le> 90) \<or> (192 \<le> n \<and> n \<le> 222 \<and> n \<noteq> 215)
         then char_of (n + 32) else c)"

definition py_lower :: "string \<Rightarrow> string" where
  "py_lower s = map lower_char s"

text \<open>\<open>str(e)\<close> of an exception: the message it was raised with.\<close>

fun exn_str :: "py_exn \<Rightarrow> string" where
  "exn_str (ValueError m) = m"
| "exn_str (TypeError m) = m"
| "exn_str (JWTError m) = m"
| "exn_str (ClientError m) = m"
| "exn_str (AttributeError m) = m"
| "exn_str (KeyError m) = m"
| "exn_str (DecodeError m) = m"

section \<open>mcp/protocol.py\<close>

record mcp_error =
  code :: int
  message :: string

definition McpError :: "int \<Rightarrow> string \<Rightarrow> mcp_error" where
  "McpError c m = \<lparr>code = c, message = m\<rparr>"

text \<open>What a handler raises: an \<open>McpError\<close> or any other exception.\<close>

datatype raised = Mcp mcp_error | Exn py_exn

definition PARSE_ERROR :: int where "PARSE_ERROR = -32700"
definition INVALID_REQUEST :: int where "INVALID_REQUEST = -32600"
definition METHOD_NOT_FOUND :: int where "METHOD_NOT_FOUND = -32601"
definition INVALID_PARAMS :: int where "INVALID_PARAMS = -32602"
definition INTERNAL_ERROR :: int where "INTERNAL_ERROR = -32603"
definition MCP_NOT_INITIALIZED :: int where "MCP_NOT_INITIALIZED = -32000"
definition MCP_ALREADY_INITIALIZED :: int where "MCP_ALREADY_INITIALIZED = -32001"
definition MCP_INVALID_SESSION :: int where "MCP_INVALID_SESSION = -32002"

text \<open>\<open>McpError.to_dict\<close>; \<open>data\<close> is never set by the server.\<close>

definition error_to_dict :: "mcp_error \<Rightarrow> json" where
  "error_to_dict e = JObj [(''code'', JNum (code e)), (''message'', JStr (message e))]"

record JsonRpcRequest =
  rq_method :: json
  rq_params :: json
  rq_id :: json

text \<open>
  \<open>JsonRpcRequest.from_dict\<close>. On a value that is not a \<open>dict\<close> the call \<open>data.get\<close>
  raises \<open>AttributeError\<close>.
\<close>

definition from_dict :: "json \<Rightarrow> raised + JsonRpcRequest" where
  "from_dict data =
     (case data of
        JObj d \<Rightarrow>
          (if dict_get d ''jsonrpc'' \<noteq> JStr ''2.0''
           then Inl (Mcp (McpError INVALID_REQUEST ''Invalid JSON-RPC version''))
           else let m = dict_get d ''method''
                in if \<not> truthy m
                   then Inl (Mcp (McpError INVALID_REQUEST ''Missing method''))
                   else Inr \<lparr>rq_method = m,
                             rq_params = dict_get_default d ''params'' (JObj []),
                             rq_id = dict_get d ''id''\<rparr>)
      | _ \<Rightarrow> Inl (Exn (AttributeError ''object has no attribute 'get' '')))"

definition is_notification :: "JsonRpcRequest \<Rightarrow> bool" where
  "is_notification r = (rq_id r = JNull)"

text \<open>\<open>JsonRpcResponse.error(id, error).to_dict()\<close>.\<close>

definition error_response_dict :: "json \<Rightarrow> mcp_error \<Rightarrow> json" where
  "error_response_dict rid e =
     JObj [(''jsonrpc'', JStr ''2.0''), (''id'', rid), (''error'', error_to_dict e)]"

definition MCP_PROTOCOL_VERSION :: string where
  "MCP_PROTOCOL_VERSION = ''2025-03-26''"

definition SERVER_CAPABILITIES :: json where
  "SERVER_CAPABILITIES = JObj [(''tools'', JObj [(''listChanged'', JBool False)])]"

definition SERVER_INFO :: json where
  "SERVER_INFO = JObj [(''name'', JStr ''herald-mcp-server''), (''version'', JStr ''1.0.0'')]"

text \<open>The text of \<open>SERVER_INSTRUCTIONS\<close> is the parameter \<open>instructions\<close>.\<close>

definition create_initialize_result :: "string \<Rightarrow> json" where
  "create_initialize_result instructions =
     JObj [(''protocolVersion'', JStr MCP_PROTOCOL_VERSION),
           (''capabilities'', SERVER_CAPABILITIES),
           (''serverInfo'', SERVER_INFO),
           (''instructions'', JStr instructions)]"

definition create_tools_list :: "json list \<Rightarrow> json" where
  "create_tools_list tools = JObj [(''tools'', JArr tools)]"

section \<open>oauth/tokens.py: access tokens\<close>

text \<open>The payload \<open>create_access_token\<close> signs.\<close>

record jwt_payload =
  sub :: string
  tenant_id :: string
  scope :: string
  client_id :: string
  iat :: int
  exp :: int
  token_type :: string

text \<open>
  What the server calls and this repository does not define: the JWT library
  (\<open>jwt.encode\<close> and \<open>jwt.decode\<close> with the process's secret; \<open>jwt.decode\<close> checks the
  signature and the expiry at the time given), \<open>json.loads\<close>, \<open>base64.b64decode\<close> followed
  by \<open>decode("utf-8")\<close>, the text Python prints for a value inside an f-string, the
  configured issuer, the text of the server instructions, \<open>hashlib.sha256\<close>,
  \<open>bcrypt.checkpw\<close> (false when it raises), \<open>bcrypt.hashpw\<close> with a fresh salt and
  \<open>urllib.parse.urlencode\<close>.
\<close>

record environment =
  jwt_encode :: "jwt_payload \<Rightarrow> string"
  jwt_decode :: "string \<Rightarrow> int \<Rightarrow> py_exn + jwt_payload"
  json_loads :: "string \<Rightarrow> string + json"
  b64decode_utf8 :: "string \<Rightarrow> py_exn + string"
  py_str :: "json \<Rightarrow> string"
  oauth_issuer :: string
  server_instructions :: string
  hash_sha256 :: "byte list \<Rightarrow> byte list"
  bcrypt_checkpw :: "string \<Rightarrow> string \<Rightarrow> bool"
  bcrypt_hashpw :: "string \<Rightarrow> string"
  urlencode :: "(string \<times> string) list \<Rightarrow> string"

text \<open>An f-string field: a \<open>str\<close> is printed as it is.\<close>

definition fmt :: "environment \<Rightarrow> json \<Rightarrow> string" where
  "fmt env v = (case v of JStr s \<Rightarrow> s | _ \<Rightarrow> py_str env v)"

definition verify_token :: "environment \<Rightarrow> int \<Rightarrow> string \<Rightarrow> py_exn + jwt_payload" where
  "verify_token env now token =
     (case jwt_decode env token now of
        Inl e \<Rightarrow> Inl e
      | Inr payload \<Rightarrow>
          (if token_type payload \<noteq> ''access_token'' then Inl (JWTError ''Invalid token type'')
           else Inr payload))"

definition get_token_claims :: "environment \<Rightarrow> int \<Rightarrow> string \<Rightarrow> py_exn + jwt_payload" where
  "get_token_claims env now authorization_header =
     (if authorization_header = [] then Inl (ValueError ''Missing Authorization header'')
      else let parts = py_split authorization_header
           in if length parts \<noteq> 2 \<or> py_lower (parts ! 0) \<noteq> ''bearer''
              then Inl (ValueError ''Invalid Authorization header format'')
              else verify_token env now (parts ! 1))"

section \<open>mcp/server.py\<close>

text \<open>
  Modelled from the spec: the schema of \<open>mcp_sessions\<close> (a migration file) is not among
  the sources; the table is keyed by \<open>session_id\<close>, the identity section 3 gives a
  session, and an \<open>INSERT\<close> of an existing key fails with the store's \<open>ClientError\<close>.
  Time is in seconds; \<open>now\<close> is the clock of the request, for Python and for the store.
\<close>

record mcp_session =
  session_id :: string
  user_id :: string
  ses_tenant_id :: string
  client_info :: json
  capabilities :: json
  expires_at :: int
  last_activity_at :: "int option"

text \<open>
  A tool of \<open>TOOLS_REGISTRY\<close>. Its handler is an external collaborator: it acts on a
  world \<open>'w\<close> of its own (the buckets) and returns a result or raises.
\<close>

record 'w tool =
  description :: string
  input_schema :: json
  handler :: "json \<Rightarrow> string \<Rightarrow> string \<Rightarrow> 'w \<Rightarrow> (py_exn + json) \<times> 'w"
  required_scope :: "string option"

record 'w mcp_state =
  sessions :: "string \<rightharpoonup> mcp_session"
  world :: 'w

record request_context =
  rc_http_method :: "string option"
  domainName :: "string option"
  stage :: "string option"

record event =
  requestContext :: "request_context option"
  ev_headers :: "string \<rightharpoonup> string"
  ev_body :: string
  isBase64Encoded :: bool

text \<open>The arguments of \<open>_render_login_form\<close>; they determine the page.\<close>

record login_form =
  lf_client_id :: "string option"
  lf_redirect_uri :: "string option"
  lf_scope :: string
  lf_state :: string
  lf_code_challenge :: "string option"
  lf_code_challenge_method :: string
  lf_error :: "string option"

text \<open>A response body: the empty string, \<open>json.dumps\<close> of a value, or the login page.\<close>

datatype resp_body = EmptyBody | JsonBody json | HtmlBody login_form

record response =
  statusCode :: int
  headers :: "(string \<times> string) list"
  body :: resp_body

definition SESSION_EXPIRY_HOURS :: int where
  "SESSION_EXPIRY_HOURS = 24"

text \<open>\<open>config.get_oauth_issuer(event)\<close>.\<close>

definition get_oauth_issuer :: "environment \<Rightarrow> event \<Rightarrow> string" where
  "get_oauth_issuer env ev =
     (if oauth_issuer env \<noteq> [] then oauth_issuer env
      else case requestContext ev of
             None \<Rightarrow> []
           | Some rc \<Rightarrow>
               (let domain = (case domainName rc of None \<Rightarrow> [] | Some d \<Rightarrow> d);
                    stg = (case stage rc of None \<Rightarrow> [] | Some s \<Rightarrow> s)
                in if domain \<noteq> [] then
                     (if stg \<noteq> [] \<and> stg \<noteq> ''$default''
                      then ''https://'' @ domain @ ''/'' @ stg
                      else ''https://'' @ domain)
                   else []))"

definition jsonrpc_error :: "json \<Rightarrow> mcp_error \<Rightarrow> response" where
  "jsonrpc_error request_id e =
     \<lparr>statusCode = 200,
      headers = [(''Content-Type'', ''application/json'')],
      body = JsonBody (error_response_dict request_id e)\<rparr>"


definition auth_error_response :: "environment \<Rightarrow> event \<Rightarrow> string \<Rightarrow> response" where
  "auth_error_response env ev msg =
     (let issuer = get_oauth_issuer env ev;
          resource_metadata_url = issuer @ ''/.well-known/oauth-protected-resource''
      in \<lparr>statusCode = 401,
          headers = [(''Content-Type'', ''application/json''),
                     (''WWW-Authenticate'',
                      ''Bearer resource_metadata=\"'' @ resource_metadata_url @ ''\"'')],
          body = JsonBody (JObj [(''error'', JStr msg)])\<rparr>)"


text \<open>
  \<open>_handle_initialize\<close>: \<open>params.get\<close> raises on a value that is not a \<open>dict\<close>; the
  session id is \<open>secrets.token_urlsafe(32)\<close>.
\<close>

definition handle_initialize ::
  "environment \<Rightarrow> (nat \<Rightarrow> byte) \<Rightarrow> int \<Rightarrow> json \<Rightarrow> jwt_payload \<Rightarrow> 'w mcp_state
   \<Rightarrow> (raised + json \<times> string option) \<times> 'w mcp_state" where
  "handle_initialize env rnd now params token_claims st =
     (case params of
        JObj d \<Rightarrow>
          (let cinfo = dict_get_default d ''clientInfo'' (JObj []);
               caps = dict_get_default d ''capabilities'' (JObj []);
               sid = token_urlsafe rnd 32;
               expires = now + SESSION_EXPIRY_HOURS * 3600
           in if sid \<in> dom (sessions st)
              then (Inl (Exn (ClientError ''duplicate key value violates unique constraint'')), st)
              else (Inr (create_initialize_result (server_instructions env), Some sid),
                    st\<lparr>sessions := (sessions st)(sid \<mapsto>
                         \<lparr>session_id = sid, user_id = sub token_claims,
                          ses_tenant_id = tenant_id token_claims, client_info = cinfo,
                          capabilities = caps, expires_at = expires,
                          last_activity_at = None\<rparr>)\<rparr>))
      | _ \<Rightarrow> (Inl (Exn (AttributeError ''object has no attribute 'get' '')), st))"

definition validate_session ::
  "int \<Rightarrow> string option \<Rightarrow> jwt_payload \<Rightarrow> 'w mcp_state
   \<Rightarrow> (raised + mcp_session) \<times> 'w mcp_state" where
  "validate_session now sid_opt token_claims st =
     (case sid_opt of
        None \<Rightarrow>
          (Inl (Mcp (McpError MCP_NOT_INITIALIZED
                       ''Session not initialized. Call initialize first.'')), st)
      | Some sid \<Rightarrow>
          (if sid = [] then
             (Inl (Mcp (McpError MCP_NOT_INITIALIZED
                          ''Session not initialized. Call initialize first.'')), st)
           else case sessions st sid of
                  None \<Rightarrow> (Inl (Mcp (McpError MCP_INVALID_SESSION ''Invalid or expired session'')), st)
                | Some session \<Rightarrow>
                    (if \<not> expires_at session > now
                     then (Inl (Mcp (McpError MCP_INVALID_SESSION ''Invalid or expired session'')), st)
                     else if user_id session \<noteq> sub token_claims
                     then (Inl (Mcp (McpError MCP_INVALID_SESSION
                                       ''Session does not belong to this user'')), st)
                     else (Inr session,
                           st\<lparr>sessions := (sessions st)(sid \<mapsto>
                                session\<lparr>last_activity_at := Some now\<rparr>)\<rparr>))))"

definition handle_tools_list :: "(string \<times> 'w tool) list \<Rightarrow> json" where
  "handle_tools_list tools =
     create_tools_list
       (map (\<lambda>(name, t). JObj [(''name'', JStr name),
                                (''description'', JStr (description t)),
                                (''inputSchema'', input_schema t)]) tools)"

text \<open>
  \<open>_handle_tools_call\<close>. A tool name that is a list or a dict cannot be looked up in the
  registry (\<open>TypeError\<close>: unhashable); any other name that is not a string is not a key.
\<close>

definition handle_tools_call ::
  "environment \<Rightarrow> (string \<times> 'w tool) list \<Rightarrow> json \<Rightarrow> mcp_session \<Rightarrow> jwt_payload \<Rightarrow> 'w
   \<Rightarrow> (raised + json) \<times> 'w" where
  "handle_tools_call env tools params session token_claims w =
     (case params of
        JObj d \<Rightarrow>
          (let tool_name = dict_get d ''name'';
               arguments = dict_get_default d ''arguments'' (JObj [])
           in if \<not> truthy tool_name
              then (Inl (Mcp (McpError INVALID_REQUEST ''Missing tool name'')), w)
              else case tool_name of
                     JArr _ \<Rightarrow> (Inl (Exn (TypeError ''unhashable type: 'list' '')), w)
                   | JObj _ \<Rightarrow> (Inl (Exn (TypeError ''unhashable type: 'dict' '')), w)
                   | _ \<Rightarrow>
                       (case (case tool_name of JStr n \<Rightarrow> map_of tools n | _ \<Rightarrow> None) of
                          None \<Rightarrow>
                            (Inl (Mcp (McpError METHOD_NOT_FOUND
                                         (''Tool not found: '' @ fmt env tool_name))), w)
                        | Some t \<Rightarrow>
                            (let required = (case required_scope t of
                                               None \<Rightarrow> ''read'' | Some r \<Rightarrow> r);
                                 user_scopes = py_split (scope token_claims)
                             in if required \<notin> set user_scopes \<and> ''admin'' \<notin> set user_scopes
                                then (Inl (Mcp (McpError INVALID_REQUEST
                                        (''Insufficient scope. Required: '' @ required
                                         @ '', has: ''
                                         @ py_str env (JArr (map JStr user_scopes))))), w)
                                else case handler t arguments (tenant_id token_claims)
                                            (sub token_claims) w of
                                       (Inr result, w') \<Rightarrow> (Inr result, w')
                                     | (Inl e, w') \<Rightarrow>
                                         (Inl (Mcp (McpError INTERNAL_ERROR
                                            (''Tool execution failed: '' @ exn_str e))), w'))))
      | _ \<Rightarrow> (Inl (Exn (AttributeError ''object has no attribute 'get' '')), w))"

definition handle_method ::
  "environment \<Rightarrow> (string \<times> 'w tool) list \<Rightarrow> (nat \<Rightarrow> byte) \<Rightarrow> int \<Rightarrow> JsonRpcRequest
   \<Rightarrow> string option \<Rightarrow> jwt_payload \<Rightarrow> 'w mcp_state
   \<Rightarrow> (raised + json \<times> string option) \<times> 'w mcp_state" where
  "handle_method env tools rnd now request sid_opt token_claims st =
     (let method = rq_method request; params = rq_params request
      in if method = JStr ''initialize''
         then handle_initialize env rnd now params token_claims st
         else if method = JStr ''notifications/initialized''
         then (case validate_session now sid_opt token_claims st of
                 (Inl e, st') \<Rightarrow> (Inl e, st')
               | (Inr _, st') \<Rightarrow> (Inr (JObj [], None), st'))
         else if method = JStr ''notifications/cancelled''
         then (Inr (JObj [], None), st)
         else case validate_session now sid_opt token_claims st of
                (Inl e, st') \<Rightarrow> (Inl e, st')
              | (Inr session, st') \<Rightarrow>
                  (if method = JStr ''tools/list''
                   then (Inr (handle_tools_list tools, None), st')
                   else if method = JStr ''tools/call''
                   then (case handle_tools_call env tools params session token_claims
                                (world st') of
                           (Inl e, w') \<Rightarrow> (Inl e, st'\<lparr>world := w'\<rparr>)
                         | (Inr result, w') \<Rightarrow> (Inr (result, None), st'\<lparr>world := w'\<rparr>))
                   else if method = JStr ''ping''
                   then (Inr (JObj [], None), st')
                   else (Inl (Mcp (McpError METHOD_NOT_FOUND
                                     (''Method not found: '' @ fmt env method))), st')))"

text \<open>
  \<open>_handle_post\<close>. The result is \<open>Inl\<close> when an exception leaves the handler: the base64
  decoding of the body and \<open>from_dict\<close> on a value that is not a \<open>dict\<close> are outside every
  \<open>try\<close> that would catch them.
\<close>

definition handle_post ::
  "environment \<Rightarrow> (string \<times> 'w tool) list \<Rightarrow> (nat \<Rightarrow> byte) \<Rightarrow> int \<Rightarrow> event
   \<Rightarrow> 'w mcp_state \<Rightarrow> (py_exn + response) \<times> 'w mcp_state" where
  "handle_post env tools rnd now ev st =
     (let hdrs = ev_headers ev;
          auth_header = str_or (hdrs ''authorization'') (hdrs ''Authorization'')
      in if str_falsy auth_header
         then (Inr (auth_error_response env ev ''Missing Authorization header''), st)
         else case get_token_claims env now (the auth_header) of
                Inl e \<Rightarrow> (Inr (auth_error_response env ev (''Invalid token: '' @ exn_str e)), st)
              | Inr token_claims \<Rightarrow>
                  (let sid_opt = str_or (hdrs ''mcp-session-id'') (hdrs ''Mcp-Session-Id'')
                   in case (if isBase64Encoded ev then b64decode_utf8 env (ev_body ev)
                            else Inr (ev_body ev)) of
                        Inl e \<Rightarrow> (Inl e, st)
                      | Inr body_text \<Rightarrow>
                          (case (if body_text \<noteq> [] then json_loads env body_text
                                 else Inr (JObj [])) of
                             Inl msg \<Rightarrow>
                               (Inr (jsonrpc_error JNull
                                       (McpError PARSE_ERROR (''Invalid JSON: '' @ msg))), st)
                           | Inr request_data \<Rightarrow>
                               (case from_dict request_data of
                                  Inl (Exn e) \<Rightarrow> (Inl e, st)
                                | Inl (Mcp e) \<Rightarrow>
                                    (Inr (jsonrpc_error
                                            (case request_data of
                                               JObj d \<Rightarrow> dict_get d ''id'' | _ \<Rightarrow> JNull) e), st)
                                | Inr request \<Rightarrow>
                                    (case handle_method env tools rnd now request sid_opt
                                            token_claims st of
                                       (Inl (Mcp e), st') \<Rightarrow>
                                         (Inr (jsonrpc_error (rq_id request) e), st')
                                     | (Inl (Exn e), st') \<Rightarrow>
                                         (Inr (jsonrpc_error (rq_id request)
                                                 (McpError INTERNAL_ERROR (exn_str e))), st')
                                     | (Inr (result, new_session_id), st') \<Rightarrow>
                                         (let response_headers =
                                                [(''Content-Type'', ''application/json'')]
                                                @ (case new_session_id of
                                                     None \<Rightarrow> []
                                                   | Some sid \<Rightarrow>
                                                       (if sid = [] then []
                                                        else [(''Mcp-Session-Id'', sid)]))
                                          in if is_notification request
                                             then (Inr \<lparr>statusCode = 202,
                                                        headers = response_headers,
                                                        body = EmptyBody\<rparr>, st')
                                             else (Inr \<lparr>statusCode = 200,
                                                        headers = response_headers,
                                                        body = JsonBody
                                                          (JObj [(''jsonrpc'', JStr ''2.0''),
                                                                 (''id'', rq_id request),
                                                                 (''result'', result)])\<rparr>,
                                                   st')))))))"



section \<open>The store of the OAuth server\<close>

text \<open>
  Modelled from the spec: the schema of the tables (a migration file) is not among the
  sources. Authorization codes are keyed by \<open>code\<close>, refresh tokens by \<open>token_hash\<close> and
  clients by \<open>client_id\<close>, the identities section 3 gives them; a tenant's \<open>slug\<close> and a
  user's \<open>email\<close> within a tenant are unique, as the look-ups of \<open>oauth/users.py\<close> expect.
  An \<open>INSERT\<close> that repeats a key writes nothing and the Data API raises \<open>ClientError\<close>
  with the store's message. No other constraint and no loss of connection is modelled.
  Users and tenants are lists in the order the store returns rows; \<open>query_one\<close> takes
  the first row. Time is in seconds, the same clock for Python and for \<open>NOW()\<close>.
\<close>

record authorization_code =
  ac_client_id :: "string option"
  ac_user_id :: string
  ac_redirect_uri :: "string option"
  ac_scope :: string
  ac_code_challenge :: "string option"
  ac_code_challenge_method :: string
  ac_expires_at :: int
  ac_used_at :: "int option"

record refresh_token =
  rt_client_id :: string
  rt_user_id :: string
  rt_scope :: string
  rt_expires_at :: int
  rt_revoked_at :: "int option"

record oauth_client =
  cl_client_secret_hash :: "string option"
  cl_client_name :: string
  cl_client_uri :: "string option"
  cl_redirect_uris :: "string list"
  cl_grant_types :: "string list"
  cl_response_types :: "string list"
  cl_token_endpoint_auth_method :: string
  cl_scope :: string
  cl_tenant_id :: "string option"
  cl_is_active :: bool

record tenant =
  tn_id :: string
  tn_name :: string
  tn_slug :: string
  tn_email :: string

record user =
  us_id :: string
  us_tenant_id :: string
  us_email :: string
  us_password_hash :: string
  us_name :: "string option"
  us_role :: string
  us_scopes :: "string list"
  us_is_active :: bool
  us_last_login_at :: "int option"

record store =
  oauth_authorization_codes :: "string \<rightharpoonup> authorization_code"
  oauth_refresh_tokens :: "string \<rightharpoonup> refresh_token"
  oauth_clients :: "string \<rightharpoonup> oauth_client"
  tenants :: "tenant list"
  users :: "user list"

text \<open>The text PostgreSQL gives for a repeated key.\<close>

definition duplicate_key :: string where
  "duplicate_key = ''ERROR: duplicate key value violates unique constraint''"

text \<open>
  The statements that write, as the Data API runs them: a result or an exception, and
  the store.
\<close>

definition insert_authorization_code ::
  "string \<Rightarrow> authorization_code \<Rightarrow> store \<Rightarrow> (py_exn + unit) \<times> store" where
  "insert_authorization_code code_value row st =
     (if oauth_authorization_codes st code_value \<noteq> None
      then (Inl (ClientError duplicate_key), st)
      else (Inr (), st\<lparr>oauth_authorization_codes :=
                           (oauth_authorization_codes st)(code_value \<mapsto> row)\<rparr>))"

definition update_code_used :: "string \<Rightarrow> int \<Rightarrow> store \<Rightarrow> (py_exn + unit) \<times> store" where
  "update_code_used code_value now st =
     (case oauth_authorization_codes st code_value of
        None \<Rightarrow> (Inr (), st)
      | Some row \<Rightarrow>
          (Inr (), st\<lparr>oauth_authorization_codes :=
                         (oauth_authorization_codes st)(code_value \<mapsto> row\<lparr>ac_used_at := Some now\<rparr>)\<rparr>))"

definition insert_refresh_token ::
  "string \<Rightarrow> refresh_token \<Rightarrow> store \<Rightarrow> (py_exn + unit) \<times> store" where
  "insert_refresh_token token_hash row st =
     (if oauth_refresh_tokens st token_hash \<noteq> None then (Inl (ClientError duplicate_key), st)
      else (Inr (), st\<lparr>oauth_refresh_tokens := (oauth_refresh_tokens st)(token_hash \<mapsto> row)\<rparr>))"

definition update_token_revoked :: "string \<Rightarrow> int \<Rightarrow> store \<Rightarrow> (py_exn + unit) \<times> store" where
  "update_token_revoked token_hash now st =
     (case oauth_refresh_tokens st token_hash of
        None \<Rightarrow> (Inr (), st)
      | Some row \<Rightarrow>
          (Inr (), st\<lparr>oauth_refresh_tokens :=
                         (oauth_refresh_tokens st)(token_hash \<mapsto> row\<lparr>rt_revoked_at := Some now\<rparr>)\<rparr>))"

definition insert_client :: "string \<Rightarrow> oauth_client \<Rightarrow> store \<Rightarrow> (py_exn + unit) \<times> store" where
  "insert_client cid row st =
     (if oauth_clients st cid \<noteq> None then (Inl (ClientError duplicate_key), st)
      else (Inr (), st\<lparr>oauth_clients := (oauth_clients st)(cid \<mapsto> row)\<rparr>))"

definition insert_tenant :: "tenant \<Rightarrow> store \<Rightarrow> (py_exn + tenant) \<times> store" where
  "insert_tenant row st =
     (if list_ex (\<lambda>t. tn_slug t = tn_slug row \<or> tn_id t = tn_id row) (tenants st)
      then (Inl (ClientError duplicate_key), st)
      else (Inr row, st\<lparr>tenants := tenants st @ [row]\<rparr>))"

definition insert_user :: "user \<Rightarrow> store \<Rightarrow> (py_exn + user) \<times> store" where
  "insert_user row st =
     (if list_ex (\<lambda>u. (us_tenant_id u = us_tenant_id row \<and> us_email u = us_email row)
                       \<or> us_id u = us_id row) (users st)
      then (Inl (ClientError duplicate_key), st)
      else (Inr row, st\<lparr>users := users st @ [row]\<rparr>))"

definition update_last_login :: "string \<Rightarrow> int \<Rightarrow> store \<Rightarrow> (py_exn + unit) \<times> store" where
  "update_last_login uid now st =
     (Inr (), st\<lparr>users := map (\<lambda>u. if us_id u = uid then u\<lparr>us_last_login_at := Some now\<rparr> else u)
                                 (users st)\<rparr>)"

section \<open>db/aurora.py\<close>

text \<open>
  \<open>AuroraClient.execute\<close>: it calls the Data API; a \<open>ClientError\<close> is logged and raised
  again, any other exception passes, a response is returned.
\<close>

definition aurora_execute ::
  "(store \<Rightarrow> (py_exn + 'a) \<times> store) \<Rightarrow> store \<Rightarrow> (py_exn + 'a) \<times> store" where
  "aurora_execute statement st =
     (case statement st of
        (Inl e, st') \<Rightarrow> (case e of ClientError m \<Rightarrow> (Inl (ClientError m), st') | _ \<Rightarrow> (Inl e, st'))
      | (Inr response, st') \<Rightarrow> (Inr response, st'))"

section \<open>oauth/tokens.py: refresh tokens\<close>

definition access_token_expire_minutes :: int where
  "access_token_expire_minutes = 60"

definition refresh_token_expire_days :: int where
  "refresh_token_expire_days = 30"

definition authorization_code_expire_minutes :: int where
  "authorization_code_expire_minutes = 10"

text \<open>\<open>hexdigest\<close>: two lower-case hexadecimal digits for every byte.\<close>

definition hex_digit :: "nat \<Rightarrow> char" where
  "hex_digit n = ''0123456789abcdef'' ! n"

definition hexdigest :: "byte list \<Rightarrow> string" where
  "hexdigest bs = concat (map (\<lambda>b. [hex_digit (unat b div 16), hex_digit (unat b mod 16)]) bs)"

text \<open>\<open>hashlib.sha256(token.encode()).hexdigest()\<close>.\<close>

definition token_hash_of :: "environment \<Rightarrow> string \<Rightarrow> string" where
  "token_hash_of env token = hexdigest (hash_sha256 env (utf8_encode token))"

definition create_access_token ::
  "environment \<Rightarrow> int \<Rightarrow> string \<Rightarrow> string \<Rightarrow> string list \<Rightarrow> string \<Rightarrow> string" where
  "create_access_token env now uid tid scopes cid =
     (let expire = now + access_token_expire_minutes * 60;
          payload = \<lparr>sub = uid, tenant_id = tid, scope = py_join '' '' scopes, client_id = cid,
                     iat = now, exp = expire, token_type = ''access_token''\<rparr>
      in jwt_encode env payload)"

definition create_refresh_token ::
  "environment \<Rightarrow> (nat \<Rightarrow> byte) \<Rightarrow> int \<Rightarrow> string \<Rightarrow> string \<Rightarrow> string list \<Rightarrow> string \<Rightarrow> store
   \<Rightarrow> (py_exn + string \<times> string) \<times> store" where
  "create_refresh_token env rnd now uid tid scopes cid st =
     (let token = token_urlsafe rnd 64;
          token_hash = token_hash_of env token;
          expire = now + refresh_token_expire_days * 86400
      in case aurora_execute
                (insert_refresh_token token_hash
                   \<lparr>rt_client_id = cid, rt_user_id = uid, rt_scope = py_join '' '' scopes,
                    rt_expires_at = expire, rt_revoked_at = None\<rparr>) st of
           (Inl e, st') \<Rightarrow> (Inl e, st')
         | (Inr _, st') \<Rightarrow> (Inr (token, token_hash), st'))"

record token_data =
  td_user_id :: string
  td_tenant_id :: string
  td_scopes :: "string list"
  td_client_id :: string

definition verify_refresh_token ::
  "environment \<Rightarrow> int \<Rightarrow> string \<Rightarrow> store \<Rightarrow> token_data option" where
  "verify_refresh_token env now token st =
     (let token_hash = token_hash_of env token
      in case oauth_refresh_tokens st token_hash of
           None \<Rightarrow> None
         | Some rt \<Rightarrow>
             (if rt_expires_at rt > now \<and> rt_revoked_at rt = None then
                (case find (\<lambda>u. us_id u = rt_user_id rt) (users st) of
                   None \<Rightarrow> None
                 | Some u \<Rightarrow>
                     Some \<lparr>td_user_id = rt_user_id rt, td_tenant_id = us_tenant_id u,
                           td_scopes = py_split (rt_scope rt), td_client_id = rt_client_id rt\<rparr>)
              else None))"

definition revoke_refresh_token ::
  "environment \<Rightarrow> int \<Rightarrow> string \<Rightarrow> store \<Rightarrow> (py_exn + bool) \<times> store" where
  "revoke_refresh_token env now token st =
     (let token_hash = token_hash_of env token
      in case aurora_execute (update_token_revoked token_hash now) st of
           (Inl e, st') \<Rightarrow> (Inl e, st')
         | (Inr _, st') \<Rightarrow> (Inr True, st'))"

section \<open>oauth/dcr.py: looking a client up\<close>

definition get_client :: "store \<Rightarrow> string \<Rightarrow> oauth_client option" where
  "get_client st cid = oauth_clients st cid"

definition verify_client_secret :: "environment \<Rightarrow> store \<Rightarrow> string \<Rightarrow> string \<Rightarrow> bool" where
  "verify_client_secret env st cid client_secret =
     (case get_client st cid of
        None \<Rightarrow> False
      | Some client \<Rightarrow>
          (if \<not> cl_is_active client then False
           else case cl_client_secret_hash client of
                  None \<Rightarrow> False
                | Some h \<Rightarrow> if h = [] then False else bcrypt_checkpw env client_secret h))"

section \<open>oauth/users.py: looking a user up\<close>

text \<open>The rows of \<open>users\<close> that the \<open>JOIN\<close> with \<open>tenants\<close> keeps.\<close>

definition has_tenant :: "store \<Rightarrow> user \<Rightarrow> bool" where
  "has_tenant st u = list_ex (\<lambda>t. tn_id t = us_tenant_id u) (tenants st)"

definition get_user :: "store \<Rightarrow> string \<Rightarrow> user option" where
  "get_user st uid = find (\<lambda>u. us_id u = uid \<and> has_tenant st u) (users st)"

definition authenticate_user ::
  "environment \<Rightarrow> int \<Rightarrow> string \<Rightarrow> string \<Rightarrow> store \<Rightarrow> (py_exn + user option) \<times> store" where
  "authenticate_user env now email password st =
     (case find (\<lambda>u. us_email u = email \<and> has_tenant st u) (users st) of
        None \<Rightarrow> (Inr None, st)
      | Some u \<Rightarrow>
          (if \<not> us_is_active u then (Inr None, st)
           else if \<not> bcrypt_checkpw env password (us_password_hash u) then (Inr None, st)
           else case aurora_execute (update_last_login (us_id u) now) st of
                  (Inl e, st') \<Rightarrow> (Inl e, st')
                | (Inr _, st') \<Rightarrow> (Inr (Some u), st')))"

section \<open>oauth/server.py\<close>

definition CORS_HEADERS :: "(string \<times> string) list" where
  "CORS_HEADERS =
     [(''Access-Control-Allow-Origin'', ''*''),
      (''Access-Control-Allow-Methods'', ''GET, POST, OPTIONS''),
      (''Access-Control-Allow-Headers'', ''Content-Type, Authorization'')]"

text \<open>\<open>_error_response\<close> of the OAuth server.\<close>

definition oauth_error_response :: "int \<Rightarrow> string \<Rightarrow> string \<Rightarrow> response" where
  "oauth_error_response status_code err error_description =
     \<lparr>statusCode = status_code,
      headers = (''Content-Type'', ''application/json'') # CORS_HEADERS,
      body = JsonBody (JObj [(''error'', JStr err), (''error_description'', JStr error_description)])\<rparr>"

text \<open>The response both grants return when they issue tokens.\<close>

definition token_response :: "string \<Rightarrow> string \<Rightarrow> string \<Rightarrow> response" where
  "token_response access_token refresh_token scope_text =
     \<lparr>statusCode = 200,
      headers = [(''Content-Type'', ''application/json''), (''Cache-Control'', ''no-store''),
                 (''Pragma'', ''no-cache'')] @ CORS_HEADERS,
      body = JsonBody (JObj [(''access_token'', JStr access_token),
                             (''token_type'', JStr ''Bearer''),
                             (''expires_in'', JNum (access_token_expire_minutes * 60)),
                             (''refresh_token'', JStr refresh_token),
                             (''scope'', JStr scope_text)])\<rparr>"

text \<open>
  \<open>a.get(k) or b.get(k, default)\<close> on the request's parameters, which are strings
  (a form body, a query string, or a JSON object of strings).
\<close>

definition or_default :: "string option \<Rightarrow> string option \<Rightarrow> string \<Rightarrow> string" where
  "or_default a b dflt =
     (case a of
        Some (c # cs) \<Rightarrow> c # cs
      | _ \<Rightarrow> (case b of None \<Rightarrow> dflt | Some s \<Rightarrow> s))"

text \<open>An optional string inside an f-string.\<close>

definition fmt_opt :: "string option \<Rightarrow> string" where
  "fmt_opt a = (case a of None \<Rightarrow> ''None'' | Some s \<Rightarrow> s)"

text \<open>
  Lines 352 to 357 of \<open>_handle_authorize_post\<close>: the requested scopes the user holds, in
  the order requested, or \<open>read\<close> when there is none.
\<close>

definition granted_scopes :: "string \<Rightarrow> string list \<Rightarrow> string list" where
  "granted_scopes scope_text user_scopes =
     (let requested_scopes = py_split scope_text;
          granted = filter (\<lambda>s. s \<in> set user_scopes) requested_scopes
      in if granted = [] then [''read''] else granted)"

definition handle_authorize_post ::
  "environment \<Rightarrow> (nat \<Rightarrow> byte) \<Rightarrow> int \<Rightarrow> (string \<rightharpoonup> string) \<Rightarrow> (string \<rightharpoonup> string) \<Rightarrow> store
   \<Rightarrow> (py_exn + response) \<times> store" where
  "handle_authorize_post env rnd now body_params query_params st =
     (let cid = str_or (body_params ''client_id'') (query_params ''client_id'');
          redirect_uri = str_or (body_params ''redirect_uri'') (query_params ''redirect_uri'');
          scope_text = or_default (body_params ''scope'') (query_params ''scope'') ''read write'';
          state = or_default (body_params ''state'') (query_params ''state'') [];
          code_challenge =
            str_or (body_params ''code_challenge'') (query_params ''code_challenge'');
          code_challenge_method =
            or_default (body_params ''code_challenge_method'')
              (query_params ''code_challenge_method'') ''S256'';
          required = (Inr (oauth_error_response 400 ''invalid_request''
                             ''Email and password are required''), st)
      in case body_params ''email'' of
           None \<Rightarrow> required
         | Some email \<Rightarrow>
         (case body_params ''password'' of
            None \<Rightarrow> required
          | Some password \<Rightarrow>
          if email = [] \<or> password = [] then required
          else
          (case authenticate_user env now email password st of
             (Inl e, st1) \<Rightarrow> (Inl e, st1)
           | (Inr None, st1) \<Rightarrow>
               (Inr \<lparr>statusCode = 200,
                     headers = [(''Content-Type'', ''text/html'')],
                     body = HtmlBody
                       \<lparr>lf_client_id = cid, lf_redirect_uri = redirect_uri,
                        lf_scope = scope_text, lf_state = state,
                        lf_code_challenge = code_challenge,
                        lf_code_challenge_method = code_challenge_method,
                        lf_error = Some ''Invalid email or password''\<rparr>\<rparr>, st1)
           | (Inr (Some usr), st1) \<Rightarrow>
               (let granted = granted_scopes scope_text (us_scopes usr);
                    new_code = token_urlsafe rnd 32;
                    expires = now + authorization_code_expire_minutes * 60
                in case aurora_execute
                          (insert_authorization_code new_code
                             \<lparr>ac_client_id = cid, ac_user_id = us_id usr,
                              ac_redirect_uri = redirect_uri,
                              ac_scope = py_join '' '' granted,
                              ac_code_challenge = code_challenge,
                              ac_code_challenge_method = code_challenge_method,
                              ac_expires_at = expires, ac_used_at = None\<rparr>) st1 of
                     (Inl e, st2) \<Rightarrow> (Inl e, st2)
                   | (Inr _, st2) \<Rightarrow>
                       (let redirect_params =
                              (''code'', new_code) # (if state \<noteq> [] then [(''state'', state)] else []);
                            redirect_url = fmt_opt redirect_uri @ ''?'' @ urlencode env redirect_params
                        in (Inr \<lparr>statusCode = 302,
                                 headers = [(''Location'', redirect_url)],
                                 body = EmptyBody\<rparr>, st2))))))"

text \<open>
  \<open>verify_code_challenge\<close> on the challenge of the stored code, which is \<open>None\<close> when the
  authorize request carried none: \<open>compare_digest\<close> then raises \<open>TypeError\<close>.
\<close>

definition verify_stored_challenge ::
  "environment \<Rightarrow> string \<Rightarrow> string option \<Rightarrow> string \<Rightarrow> py_exn + bool" where
  "verify_stored_challenge env code_verifier challenge method =
     (case challenge of
        Some c \<Rightarrow> verify_code_challenge (hash_sha256 env) code_verifier c method
      | None \<Rightarrow>
          (case generate_code_challenge (hash_sha256 env) code_verifier method of
             Inl e \<Rightarrow> Inl e
           | Inr expected_challenge \<Rightarrow>
               Inl (TypeError ''unsupported operand types(s) or combination of types'')))"

text \<open>
  Lines 484 to 487 and 552 to 555: a client that has a secret hash and presents no
  secret, or one that does not verify.
\<close>

definition client_secret_rejected ::
  "environment \<Rightarrow> store \<Rightarrow> string \<Rightarrow> string option \<Rightarrow> bool" where
  "client_secret_rejected env st cid client_secret =
     (case get_client st cid of
        None \<Rightarrow> False
      | Some client \<Rightarrow>
          \<not> str_falsy (cl_client_secret_hash client)
          \<and> (case client_secret of
                None \<Rightarrow> True
              | Some s \<Rightarrow> s = [] \<or> \<not> verify_client_secret env st cid s))"

definition invalid_grant :: "string \<Rightarrow> response" where
  "invalid_grant error_description =
     oauth_error_response 400 ''invalid_grant'' error_description"

definition handle_authorization_code_grant ::
  "environment \<Rightarrow> (nat \<Rightarrow> byte) \<Rightarrow> int \<Rightarrow> (string \<rightharpoonup> string) \<Rightarrow> string \<Rightarrow> string option \<Rightarrow> store
   \<Rightarrow> (py_exn + response) \<times> store" where
  "handle_authorization_code_grant env rnd now params cid client_secret st =
     (let redirect_uri = params ''redirect_uri'';
          code_verifier = params ''code_verifier''
      in case params ''code'' of
           None \<Rightarrow> (Inr (oauth_error_response 400 ''invalid_request'' ''code is required''), st)
         | Some code_value \<Rightarrow>
         if code_value = []
         then (Inr (oauth_error_response 400 ''invalid_request'' ''code is required''), st)
         else if str_falsy code_verifier
         then (Inr (oauth_error_response 400 ''invalid_request''
                      ''code_verifier is required (PKCE)''), st)
         else
         (case oauth_authorization_codes st code_value of
            None \<Rightarrow> (Inr (invalid_grant ''Invalid authorization code''), st)
          | Some auth_code \<Rightarrow>
            if ac_expires_at auth_code < now
            then (Inr (invalid_grant ''Authorization code has expired''), st)
            else if ac_used_at auth_code \<noteq> None
            then (Inr (invalid_grant ''Authorization code has already been used''), st)
            else if ac_client_id auth_code \<noteq> Some cid
            then (Inr (invalid_grant ''Client ID mismatch''), st)
            else if \<not> str_falsy redirect_uri \<and> ac_redirect_uri auth_code \<noteq> redirect_uri
            then (Inr (invalid_grant ''Redirect URI mismatch''), st)
            else
            (case verify_stored_challenge env (case code_verifier of None \<Rightarrow> [] | Some v \<Rightarrow> v)
                    (ac_code_challenge auth_code) (ac_code_challenge_method auth_code) of
               Inl e \<Rightarrow> (Inl e, st)
             | Inr verified \<Rightarrow>
               if \<not> verified then (Inr (invalid_grant ''Invalid code_verifier''), st)
               else if client_secret_rejected env st cid client_secret
               then (Inr (oauth_error_response 401 ''invalid_client''
                            ''Invalid client credentials''), st)
               else
               (case aurora_execute (update_code_used code_value now) st of
                  (Inl e, st1) \<Rightarrow> (Inl e, st1)
                | (Inr _, st1) \<Rightarrow>
                  (case get_user st1 (ac_user_id auth_code) of
                     None \<Rightarrow> (Inr (invalid_grant ''User not found''), st1)
                   | Some usr \<Rightarrow>
                       (let scopes = py_split (ac_scope auth_code);
                            access_token =
                              create_access_token env now (us_id usr) (us_tenant_id usr) scopes cid
                        in case create_refresh_token env rnd now (us_id usr) (us_tenant_id usr)
                                  scopes cid st1 of
                             (Inl e, st2) \<Rightarrow> (Inl e, st2)
                           | (Inr (refresh, _), st2) \<Rightarrow>
                               (Inr (token_response access_token refresh (ac_scope auth_code)),
                                st2)))))))"

definition handle_refresh_token_grant ::
  "environment \<Rightarrow> (nat \<Rightarrow> byte) \<Rightarrow> int \<Rightarrow> (string \<rightharpoonup> string) \<Rightarrow> string \<Rightarrow> string option \<Rightarrow> store
   \<Rightarrow> (py_exn + response) \<times> store" where
  "handle_refresh_token_grant env rnd now params cid client_secret st =
     (case params ''refresh_token'' of
        None \<Rightarrow>
          (Inr (oauth_error_response 400 ''invalid_request'' ''refresh_token is required''), st)
      | Some refresh \<Rightarrow>
        if refresh = []
        then (Inr (oauth_error_response 400 ''invalid_request'' ''refresh_token is required''), st)
        else
        (case verify_refresh_token env now refresh st of
           None \<Rightarrow> (Inr (invalid_grant ''Invalid or expired refresh token''), st)
         | Some data \<Rightarrow>
           if td_client_id data \<noteq> cid then (Inr (invalid_grant ''Client ID mismatch''), st)
           else if client_secret_rejected env st cid client_secret
           then (Inr (oauth_error_response 401 ''invalid_client''
                        ''Invalid client credentials''), st)
           else
           (case revoke_refresh_token env now refresh st of
              (Inl e, st1) \<Rightarrow> (Inl e, st1)
            | (Inr _, st1) \<Rightarrow>
                (let access_token =
                       create_access_token env now (td_user_id data) (td_tenant_id data)
                         (td_scopes data) cid
                 in case create_refresh_token env rnd now (td_user_id data) (td_tenant_id data)
                           (td_scopes data) cid st1 of
                      (Inl e, st2) \<Rightarrow> (Inl e, st2)
                    | (Inr (new_refresh, _), st2) \<Rightarrow>
                        (Inr (token_response access_token new_refresh
                                (py_join '' '' (td_scopes data))), st2)))))"

section \<open>Sample values for the concrete instances\<close>

text \<open>
  Two users' token payloads, an environment whose JWT library accepts the tokens
  \<open>token-a\<close> and \<open>token-b\<close>, whose \<open>json.loads\<close> and \<open>str\<close> are given on the texts and
  values used below, whose digest, password check and \<open>urlencode\<close> are stand-ins
  (\<open>urlencode\<close> is right on values that need no quoting), and a registry of two tools whose handlers count their invocations
  in a world of type \<open>nat\<close>.
\<close>

definition claims_a :: jwt_payload where
  "claims_a = \<lparr>sub = ''user-a'', tenant_id = ''tenant-1'', scope = ''read'',
               client_id = ''client-1'', iat = 0, exp = 3600, token_type = ''access_token''\<rparr>"

definition claims_b :: jwt_payload where
  "claims_b = \<lparr>sub = ''user-b'', tenant_id = ''tenant-1'', scope = ''read write'',
               client_id = ''client-1'', iat = 0, exp = 3600, token_type = ''access_token''\<rparr>"

definition cancelled_text :: string where
  "cancelled_text = ''{\"jsonrpc\": \"2.0\", \"method\": \"notifications/cancelled\"}''"

definition sample_env :: environment where
  "sample_env =
     \<lparr>jwt_encode = (\<lambda>p. ''token-'' @ sub p),
      jwt_decode = (\<lambda>token now.
         if token = ''token-a'' then Inr claims_a
         else if token = ''token-b'' then Inr claims_b
         else Inl (JWTError ''Signature verification failed.'')),
      json_loads = (\<lambda>text.
         if text = cancelled_text
         then Inr (JObj [(''jsonrpc'', JStr ''2.0''),
                         (''method'', JStr ''notifications/cancelled'')])
         else Inl ''Expecting value: line 1 column 1 (char 0)''),
      b64decode_utf8 = (\<lambda>text. Inl (DecodeError ''Incorrect padding'')),
      py_str = (\<lambda>v. if v = JArr [JStr ''read''] then ''['read']'' else []),
      oauth_issuer = ''https://herald.example'',
      server_instructions = ''You are connected to Herald'',
      hash_sha256 = sample_sha256,
      bcrypt_checkpw = (\<lambda>password hashed. hashed = ''bcrypt:'' @ password),
      bcrypt_hashpw = (\<lambda>password. ''bcrypt:'' @ password),
      urlencode = (\<lambda>ps. py_join ''&'' (map (\<lambda>(k, v). k @ ''='' @ v) ps))\<rparr>"

definition counting_handler :: "json \<Rightarrow> string \<Rightarrow> string \<Rightarrow> nat \<Rightarrow> (py_exn + json) \<times> nat" where
  "counting_handler arguments tenant user w = (Inr (JObj [(''content'', JArr [])]), Suc w)"

definition sample_tools :: "(string \<times> nat tool) list" where
  "sample_tools =
     [(''list_buckets'',
       \<lparr>description = ''List all S3 buckets you have access to.'',
        input_schema = JObj [(''type'', JStr ''object''), (''properties'', JObj [])],
        handler = counting_handler, required_scope = Some ''read''\<rparr>),
      (''publish_file'',
       \<lparr>description = ''Upload a file to an authorized S3 bucket.'',
        input_schema = JObj [(''type'', JStr ''object'')],
        handler = counting_handler, required_scope = Some ''write''\<rparr>)]"

definition session_a :: mcp_session where
  "session_a = \<lparr>session_id = ''sess-1'', user_id = ''user-a'', ses_tenant_id = ''tenant-1'',
                client_info = JObj [], capabilities = JObj [], expires_at = 86400,
                last_activity_at = None\<rparr>"

definition state_a :: "nat mcp_state" where
  "state_a = \<lparr>sessions = [''sess-1'' \<mapsto> session_a], world = 0\<rparr>"

definition empty_state :: "nat mcp_state" where
  "empty_state = \<lparr>sessions = Map.empty, world = 0\<rparr>"


text \<open>The state after a validated call on \<open>sess-1\<close> at time 10.\<close>

definition state_a_touched :: "nat mcp_state" where
  "state_a_touched = state_a\<lparr>sessions := (sessions state_a)(''sess-1'' \<mapsto>
                        session_a\<lparr>last_activity_at := Some 10\<rparr>)\<rparr>"

section \<open>Properties of base64 and PKCE\<close>

lemma length_b64_alphabet: "length b64_alphabet = 64"
  by (simp add: b64_alphabet_def)

lemma b64_alphabet_urlsafe: "\<forall>c\<in>set b64_alphabet. is_urlsafe c"
  by (simp add: b64_alphabet_def is_urlsafe_def)


lemma pad_not_b64: "CHR ''='' \<notin> set b64_alphabet"
  by (simp add: b64_alphabet_def)

lemma b64_char_mem: "n < 64 \<Longrightarrow> b64_char n \<in> set b64_alphabet"
  by (simp add: b64_char_def length_b64_alphabet)

lemma b64_char_not_pad: "n < 64 \<Longrightarrow> b64_char n \<notin> set ''=''"
  using b64_char_mem [of n] pad_not_b64 by auto

lemma unat_byte_lt: "unat (a :: byte) < 256"
  using unsigned_less [of a, where ?'a = nat] by simp

lemma idx0: "unat (a :: byte) div 4 < 64"
  using unat_byte_lt [of a] by simp

lemma idx1: "(unat (a :: byte) mod 4) * 16 + unat (b :: byte) div 16 < 64"
proof -
  have "unat a mod 4 < 4" by simp
  moreover have "unat b div 16 < 16" using unat_byte_lt [of b] by simp
  ultimately show ?thesis by linarith
qed

lemma idx1': "(unat (a :: byte) mod 4) * 16 < 64"
proof -
  have "unat a mod 4 < 4" by simp
  then show ?thesis by linarith
qed

lemma idx2: "(unat (b :: byte) mod 16) * 4 + unat (c :: byte) div 64 < 64"
proof -
  have "unat b mod 16 < 16" by simp
  moreover have "unat c div 64 < 4" using unat_byte_lt [of c] by simp
  ultimately show ?thesis by linarith
qed

lemma idx2': "(unat (b :: byte) mod 16) * 4 < 64"
proof -
  have "unat b mod 16 < 16" by simp
  then show ?thesis by linarith
qed

lemma idx3: "unat (c :: byte) mod 64 < 64"
  by simp

lemmas b64_idx = idx0 idx1 idx1' idx2 idx2' idx3

lemma rstrip_Nil: "rstrip cs [] = []"
  by (simp add: rstrip_def)

lemma rstrip_snoc_keep: "x \<notin> set cs \<Longrightarrow> rstrip cs (xs @ [x]) = xs @ [x]"
  by (simp add: rstrip_def)

lemma rstrip_snoc_drop: "x \<in> set cs \<Longrightarrow> rstrip cs (xs @ [x]) = rstrip cs xs"
  by (simp add: rstrip_def)

lemma rstrip_append_keep:
  "rstrip cs ys \<noteq> [] \<Longrightarrow> rstrip cs (xs @ ys) = xs @ rstrip cs ys"
  by (auto simp: rstrip_def dropWhile_append)

lemma set_rstrip: "set (rstrip cs s) \<subseteq> set s"
  unfolding rstrip_def using set_dropWhileD by fastforce

lemma b64_char_neq_pad: "n < 64 \<Longrightarrow> b64_char n \<noteq> CHR ''=''"
  using b64_char_mem [of n] pad_not_b64 by auto

lemma b64_nopad:
  "set (rstrip ''='' (urlsafe_b64encode bs)) \<subseteq> set b64_alphabet
   \<and> length (rstrip ''='' (urlsafe_b64encode bs)) = (4 * length bs + 2) div 3"
proof (induction bs rule: urlsafe_b64encode.induct)
  case 1
  show ?case by (simp add: rstrip_Nil)
next
  case (2 a)
  have "rstrip ''='' (urlsafe_b64encode [a]) = [b64_char (unat a div 4), b64_char ((unat a mod 4) * 16)]"
    by (simp add: rstrip_def b64_char_neq_pad [OF idx1'])
  then show ?case using b64_char_mem b64_idx by simp
next
  case (3 a b)
  have "rstrip ''='' (urlsafe_b64encode [a, b]) = [b64_char (unat a div 4), b64_char ((unat a mod 4) * 16 + unat b div 16),
      b64_char ((unat b mod 16) * 4)]"
    by (simp add: rstrip_def b64_char_neq_pad [OF idx2'])
  then show ?case using b64_char_mem b64_idx by simp
next
  case (4 a b c rest)
  let ?g = "[b64_char (unat a div 4), b64_char ((unat a mod 4) * 16 + unat b div 16),
      b64_char ((unat b mod 16) * 4 + unat c div 64), b64_char (unat c mod 64)]"
  have g: "set ?g \<subseteq> set b64_alphabet" using b64_char_mem b64_idx by simp
  show ?case
  proof (cases rest)
    case Nil
    have "rstrip ''='' (urlsafe_b64encode (a # b # c # rest)) = ?g"
      using Nil by (simp add: rstrip_def b64_char_neq_pad [OF idx3])
    then show ?thesis using g Nil by simp
  next
    case (Cons r rs)
    from 4 have l: "length (rstrip ''='' (urlsafe_b64encode rest)) = (4 * length rest + 2) div 3"
      and s: "set (rstrip ''='' (urlsafe_b64encode rest)) \<subseteq> set b64_alphabet" by simp_all
    from l Cons have ne: "rstrip ''='' (urlsafe_b64encode rest) \<noteq> []" by auto
    have "rstrip ''='' (urlsafe_b64encode (a # b # c # rest)) = ?g @ rstrip ''='' (urlsafe_b64encode rest)"
      using rstrip_append_keep [OF ne, of ?g] by simp
    then show ?thesis using g s l by simp
  qed
qed


lemma generate_code_verifier_length:
  "0 \<le> n \<Longrightarrow> \<exists>v. generate_code_verifier rnd n = Inr v
      \<and> length v = min 128 ((4 * nat n + 2) div 3) \<and> (\<forall>c\<in>set v. is_urlsafe c)"
  using b64_nopad [of "map rnd [0..<nat n]"] b64_alphabet_urlsafe
  by (auto simp: generate_code_verifier_def token_bytes_def dest!: in_set_takeD)




text \<open>
  C8, as stated, fails: the argument is the number of random bytes, and ten bytes give a
  verifier of fourteen characters.
\<close>

theorem generate_code_verifier_short:
  "generate_code_verifier zero_rnd 10 = Inr ''AAAAAAAAAAAAAA''
   \<and> length ''AAAAAAAAAAAAAA'' < (43::nat)"
  by (simp add: generate_code_verifier_def token_bytes_def zero_rnd_def rstrip_def
      b64_char_def b64_alphabet_def upt_rec [of _ "numeral _"])

text \<open>
  C8, amended: for every length argument of at least 32, \<open>generate_code_verifier\<close> returns
  a URL-safe string whose length is between 43 and 128 characters inclusive.
\<close>

theorem generate_code_verifier_bounds:
  assumes "32 \<le> n"
  shows "\<exists>v. generate_code_verifier rnd n = Inr v
           \<and> 43 \<le> length v \<and> length v \<le> 128 \<and> (\<forall>c\<in>set v. is_urlsafe c)"
proof -
  from assms have "0 \<le> n" by simp
  from generate_code_verifier_length [OF this, of rnd] obtain v where
    v: "generate_code_verifier rnd n = Inr v"
       "length v = min 128 ((4 * nat n + 2) div 3)" "\<forall>c\<in>set v. is_urlsafe c"
    by blast
  from assms have "43 \<le> (4 * nat n + 2) div 3" by linarith
  with v show ?thesis by auto
qed

theorem generate_code_verifier_bounds_witness:
  "(32::int) \<le> 32
   \<and> (\<exists>v. generate_code_verifier zero_rnd 32 = Inr v
           \<and> 43 \<le> length v \<and> length v \<le> 128 \<and> (\<forall>c\<in>set v. is_urlsafe c))"
  using generate_code_verifier_bounds [of 32 zero_rnd] by simp

section \<open>Properties of the MCP server\<close>

lemmas error_codes = PARSE_ERROR_def INVALID_REQUEST_def METHOD_NOT_FOUND_def
  INVALID_PARAMS_def INTERNAL_ERROR_def MCP_NOT_INITIALIZED_def MCP_ALREADY_INITIALIZED_def
  MCP_INVALID_SESSION_def

lemma token_urlsafe_length: "length (token_urlsafe rnd n) = (4 * n + 2) div 3"
  using b64_nopad [of "map rnd [0..<n]"] by (simp add: token_urlsafe_def)

lemma validate_session_world:
  "validate_session now sid_opt token_claims st = (r, st') \<Longrightarrow> world st' = world st"
  by (auto simp: validate_session_def split: option.splits if_splits)

lemma validate_no_session:
  "str_falsy sid_opt \<Longrightarrow> validate_session now sid_opt claims st =
     (Inl (Mcp (McpError MCP_NOT_INITIALIZED
                  ''Session not initialized. Call initialize first.'')), st)"
  by (auto simp: validate_session_def str_falsy_def split: option.splits)

lemma validate_absent_or_expired:
  "sid \<noteq> [] \<Longrightarrow> (case sessions st sid of None \<Rightarrow> True | Some s \<Rightarrow> expires_at s \<le> now) \<Longrightarrow>
   validate_session now (Some sid) claims st =
     (Inl (Mcp (McpError MCP_INVALID_SESSION ''Invalid or expired session'')), st)"
  by (auto simp: validate_session_def split: option.splits)

lemma handle_initialize_not_mcp:
  "fst (handle_initialize env rnd now params claims st) \<noteq> Inl (Mcp e)"
  by (auto simp: handle_initialize_def Let_def split: json.splits)

text \<open>A session that \<open>initialize\<close> creates has an id of 43 characters, never the empty one.\<close>

lemma handle_initialize_session:
  assumes "handle_initialize env rnd now params claims st = (Inr (result, Some sid), st')"
  shows "sid \<noteq> [] \<and> (\<exists>s. sessions st' sid = Some s \<and> user_id s = sub claims
                              \<and> expires_at s = now + 86400)"
proof -
  have "length (token_urlsafe rnd 32) = 43" by (simp add: token_urlsafe_length)
  then have ne: "token_urlsafe rnd 32 \<noteq> []" by auto
  from assms show ?thesis
    using ne
    by (auto simp: handle_initialize_def Let_def SESSION_EXPIRY_HOURS_def
        split: json.splits if_splits)
qed

text \<open>
  C4: validating a stored session against a verified token whose \<open>sub\<close> differs from the
  session's \<open>user_id\<close> fails with the InvalidSession error, whether the session has lapsed
  or not, and leaves the store as it was. (Session ids are never empty.)
\<close>

theorem validate_session_user_mismatch:
  assumes "sessions st sid = Some session" and "sid \<noteq> []"
    and "user_id session \<noteq> sub token_claims"
  shows "validate_session now (Some sid) token_claims st =
           (Inl (Mcp (McpError MCP_INVALID_SESSION
                        (if expires_at session > now
                         then ''Session does not belong to this user''
                         else ''Invalid or expired session''))), st)"
  using assms by (simp add: validate_session_def)

theorem validate_session_user_mismatch_witness:
  "validate_session 10 (Some ''sess-1'') claims_b state_a =
     (Inl (Mcp (McpError MCP_INVALID_SESSION ''Session does not belong to this user'')),
      state_a)"
proof -
  have 1: "sessions state_a ''sess-1'' = Some session_a" by (simp add: state_a_def)
  have 2: "''sess-1'' \<noteq> []" by simp
  have 3: "user_id session_a \<noteq> sub claims_b" by (simp add: session_a_def claims_b_def)
  show ?thesis
    using validate_session_user_mismatch [OF 1 2 3, of 10] by (simp add: session_a_def)
qed

text \<open>
  C5: for a \<open>tools/call\<close> request with a valid session that names a registered tool, when
  the token's scopes hold neither the tool's required scope nor \<open>admin\<close> the dispatcher
  raises an \<open>McpError\<close> with the invalid-request code (not the internal-error code) whose
  message contains the required scope, and the tools' world is unchanged; when the token
  holds the required scope or \<open>admin\<close> the tool's handler is run and its result returned.
\<close>

theorem tools_call_scope_gate:
  assumes vs: "validate_session now sid_opt token_claims st = (Inr session, st')"
    and m: "rq_method request = JStr ''tools/call''"
    and p: "rq_params request = JObj d"
    and n: "dict_get d ''name'' = JStr name" "name \<noteq> []"
    and t: "map_of tools name = Some t"
    and r: "required = (case required_scope t of None \<Rightarrow> ''read'' | Some r \<Rightarrow> r)"
    and u: "user_scopes = py_split (scope token_claims)"
  shows "(required \<notin> set user_scopes \<and> ''admin'' \<notin> set user_scopes \<longrightarrow>
            (\<exists>msg. handle_method env tools rnd now request sid_opt token_claims st
                     = (Inl (Mcp (McpError INVALID_REQUEST msg)), st')
                  \<and> sublist required msg) \<and> world st' = world st
            \<and> INVALID_REQUEST \<noteq> INTERNAL_ERROR)
       \<and> (required \<in> set user_scopes \<or> ''admin'' \<in> set user_scopes \<longrightarrow>
            handle_method env tools rnd now request sid_opt token_claims st
              = (case handler t (dict_get_default d ''arguments'' (JObj []))
                        (tenant_id token_claims) (sub token_claims) (world st) of
                   (Inr result, w') \<Rightarrow> (Inr (result, None), st'\<lparr>world := w'\<rparr>)
                 | (Inl e, w') \<Rightarrow>
                     (Inl (Mcp (McpError INTERNAL_ERROR
                                  (''Tool execution failed: '' @ exn_str e))),
                      st'\<lparr>world := w'\<rparr>)))"
proof -
  have w: "world st' = world st" using vs by (rule validate_session_world)
  let ?msg = "''Insufficient scope. Required: '' @ required @ '', has: ''
                   @ py_str env (JArr (map JStr user_scopes))"
  have tc: "handle_tools_call env tools (JObj d) session token_claims (world st) =
      (if required \<notin> set user_scopes \<and> ''admin'' \<notin> set user_scopes
       then (Inl (Mcp (McpError INVALID_REQUEST ?msg)), world st)
       else case handler t (dict_get_default d ''arguments'' (JObj []))
                        (tenant_id token_claims) (sub token_claims) (world st) of
                   (Inr result, w') \<Rightarrow> (Inr result, w')
                 | (Inl e, w') \<Rightarrow>
                     (Inl (Mcp (McpError INTERNAL_ERROR
                                  (''Tool execution failed: '' @ exn_str e))), w'))"
    using n t r u by (simp add: handle_tools_call_def Let_def)
  have hm: "handle_method env tools rnd now request sid_opt token_claims st =
      (case handle_tools_call env tools (JObj d) session token_claims (world st) of
         (Inl e, w') \<Rightarrow> (Inl e, st'\<lparr>world := w'\<rparr>)
       | (Inr result, w') \<Rightarrow> (Inr (result, None), st'\<lparr>world := w'\<rparr>))"
    using vs m p w by (simp add: handle_method_def Let_def)
  have s: "sublist required ?msg"
    by (rule sublist_appendI)
  show ?thesis
  proof (intro conjI impI)
    assume a: "required \<notin> set user_scopes \<and> ''admin'' \<notin> set user_scopes"
    have "st'\<lparr>world := world st\<rparr> = st'" using w by simp
    with a show "\<exists>msg. handle_method env tools rnd now request sid_opt token_claims st
                     = (Inl (Mcp (McpError INVALID_REQUEST msg)), st')
                  \<and> sublist required msg"
      using s by (intro exI [of _ ?msg]) (simp add: hm tc)
  next
    show "world st' = world st" by (rule w)
  next
    show "INVALID_REQUEST \<noteq> INTERNAL_ERROR" by (simp add: error_codes)
  next
    assume a: "required \<in> set user_scopes \<or> ''admin'' \<in> set user_scopes"
    then show "handle_method env tools rnd now request sid_opt token_claims st
              = (case handler t (dict_get_default d ''arguments'' (JObj []))
                        (tenant_id token_claims) (sub token_claims) (world st) of
                   (Inr result, w') \<Rightarrow> (Inr (result, None), st'\<lparr>world := w'\<rparr>)
                 | (Inl e, w') \<Rightarrow>
                     (Inl (Mcp (McpError INTERNAL_ERROR
                                  (''Tool execution failed: '' @ exn_str e))),
                      st'\<lparr>world := w'\<rparr>))"
      by (auto simp: hm tc split: prod.splits sum.splits)
  qed
qed

lemma py_split_read: "py_split ''read'' = [''read'']"
  by (simp add: py_split_def is_space_def)




lemma validate_a: "validate_session 10 (Some ''sess-1'') claims_a state_a = (Inr session_a, state_a_touched)"
  by (simp add: validate_session_def state_a_def session_a_def claims_a_def state_a_touched_def)

theorem tools_call_scope_gate_witness:
  "(\<exists>msg. handle_method sample_env sample_tools zero_rnd 10
            \<lparr>rq_method = JStr ''tools/call'',
             rq_params = JObj [(''name'', JStr ''publish_file'')], rq_id = JNum 1\<rparr>
            (Some ''sess-1'') claims_a state_a
          = (Inl (Mcp (McpError INVALID_REQUEST msg)), state_a_touched)
        \<and> sublist ''write'' msg)
   \<and> handle_method sample_env sample_tools zero_rnd 10
            \<lparr>rq_method = JStr ''tools/call'',
             rq_params = JObj [(''name'', JStr ''list_buckets'')], rq_id = JNum 2\<rparr>
            (Some ''sess-1'') claims_a state_a
          = (Inr (JObj [(''content'', JArr [])], None), state_a_touched\<lparr>world := 1\<rparr>)"
proof -
  have sc: "py_split (scope claims_a) = [''read'']"
    by (simp add: claims_a_def py_split_read)
  have t1: "map_of sample_tools ''publish_file'' = Some (snd (sample_tools ! 1))"
    by (simp add: sample_tools_def)
  have t2: "map_of sample_tools ''list_buckets'' = Some (snd (sample_tools ! 0))"
    by (simp add: sample_tools_def)
  have r1: "''write'' = (case required_scope (snd (sample_tools ! 1)) of None \<Rightarrow> ''read'' | Some r \<Rightarrow> r)"
    by (simp add: sample_tools_def)
  have r2: "''read'' = (case required_scope (snd (sample_tools ! 0)) of None \<Rightarrow> ''read'' | Some r \<Rightarrow> r)"
    by (simp add: sample_tools_def)
  have u: "[''read''] = py_split (scope claims_a)" using sc by simp
  note g1 = tools_call_scope_gate [OF validate_a, of
      "\<lparr>rq_method = JStr ''tools/call'', rq_params = JObj [(''name'', JStr ''publish_file'')], rq_id = JNum 1\<rparr>"
      "[(''name'', JStr ''publish_file'')]" "''publish_file''" sample_tools _ "''write''" "[''read'']"
      sample_env zero_rnd, OF _ _ _ _ t1 r1 u]
  note g2 = tools_call_scope_gate [OF validate_a, of
      "\<lparr>rq_method = JStr ''tools/call'', rq_params = JObj [(''name'', JStr ''list_buckets'')], rq_id = JNum 2\<rparr>"
      "[(''name'', JStr ''list_buckets'')]" "''list_buckets''" sample_tools _ "''read''" "[''read'']"
      sample_env zero_rnd, OF _ _ _ _ t2 r2 u]
  show ?thesis
    using g1 g2
    by (simp add: dict_get_def dict_get_default_def sample_tools_def counting_handler_def
        state_a_def state_a_touched_def)
qed














text \<open>
  C6, as stated, fails: \<open>notifications/initialized\<close> validates the session, and with no
  session id it is rejected with NotInitialized.
\<close>

theorem notifications_initialized_needs_session:
  "handle_method sample_env sample_tools zero_rnd 10
     \<lparr>rq_method = JStr ''notifications/initialized'', rq_params = JObj [], rq_id = JNull\<rparr>
     None claims_a empty_state
   = (Inl (Mcp (McpError MCP_NOT_INITIALIZED
                  ''Session not initialized. Call initialize first.'')), empty_state)"
  by (simp add: handle_method_def validate_session_def)

text \<open>
  C6, amended: in the dispatcher, every method other than \<open>initialize\<close> and
  \<open>notifications/cancelled\<close> (\<open>notifications/initialized\<close> among them) is rejected with the
  NotInitialized code when no session id is presented, and with the InvalidSession code
  when the presented session is absent or expired; the two codes differ. \<open>initialize\<close>
  never raises an \<open>McpError\<close>, and \<open>notifications/cancelled\<close> returns an empty success
  whatever the session; sent without an id, it is answered with an empty body.
\<close>

theorem dispatcher_session_gate:
  fixes st :: "'w mcp_state" and request env tools rnd now sid_opt claims
  defines "m \<equiv> rq_method request"
  defines "res \<equiv> handle_method env tools rnd now request sid_opt claims st"
  shows "(m \<noteq> JStr ''initialize'' \<and> m \<noteq> JStr ''notifications/cancelled'' \<longrightarrow>
            (str_falsy sid_opt \<longrightarrow>
               res = (Inl (Mcp (McpError MCP_NOT_INITIALIZED
                                  ''Session not initialized. Call initialize first.'')), st))
          \<and> (\<forall>sid. sid_opt = Some sid \<and> sid \<noteq> []
                   \<and> (case sessions st sid of None \<Rightarrow> True | Some s \<Rightarrow> expires_at s \<le> now) \<longrightarrow>
               res = (Inl (Mcp (McpError MCP_INVALID_SESSION ''Invalid or expired session'')), st)))
       \<and> (m = JStr ''notifications/cancelled'' \<longrightarrow> res = (Inr (JObj [], None), st))
       \<and> (m = JStr ''initialize'' \<longrightarrow> (\<forall>e. fst res \<noteq> Inl (Mcp e)))
       \<and> MCP_NOT_INITIALIZED \<noteq> MCP_INVALID_SESSION
       \<and> (\<forall>(ev :: event) data.
            \<not> str_falsy (str_or (ev_headers ev ''authorization'') (ev_headers ev ''Authorization''))
          \<and> get_token_claims env now
              (the (str_or (ev_headers ev ''authorization'') (ev_headers ev ''Authorization'')))
              = Inr claims
          \<and> \<not> isBase64Encoded ev \<and> ev_body ev \<noteq> []
          \<and> json_loads env (ev_body ev) = Inr data \<and> from_dict data = Inr request
          \<and> m = JStr ''notifications/cancelled'' \<and> rq_id request = JNull \<longrightarrow>
            handle_post env tools rnd now ev st =
              (Inr \<lparr>statusCode = 202, headers = [(''Content-Type'', ''application/json'')],
                    body = EmptyBody\<rparr>, st))"
proof (intro conjI impI allI)
  assume a: "m \<noteq> JStr ''initialize'' \<and> m \<noteq> JStr ''notifications/cancelled''"
  have g: "\<And>e. validate_session now sid_opt claims st = (Inl e, st) \<Longrightarrow> res = (Inl e, st)"
    using a by (simp add: res_def m_def handle_method_def Let_def)
  { assume "str_falsy sid_opt"
    from validate_no_session [OF this] show "res = (Inl (Mcp (McpError MCP_NOT_INITIALIZED
                                  ''Session not initialized. Call initialize first.'')), st)"
      by (rule g) }
  { fix sid
    assume b: "sid_opt = Some sid \<and> sid \<noteq> []
                   \<and> (case sessions st sid of None \<Rightarrow> True | Some s \<Rightarrow> expires_at s \<le> now)"
    then have "validate_session now sid_opt claims st =
        (Inl (Mcp (McpError MCP_INVALID_SESSION ''Invalid or expired session'')), st)"
      using validate_absent_or_expired [where sid = sid and st = st and now = now
          and claims = claims] by simp
    then show "res = (Inl (Mcp (McpError MCP_INVALID_SESSION ''Invalid or expired session'')), st)"
      by (rule g) }
next
  assume "m = JStr ''notifications/cancelled''"
  then show "res = (Inr (JObj [], None), st)"
    by (simp add: res_def m_def handle_method_def Let_def)
next
  fix e
  assume "m = JStr ''initialize''"
  then show "fst res \<noteq> Inl (Mcp e)"
    using handle_initialize_not_mcp [of env rnd now "rq_params request" claims st e]
    by (simp add: res_def m_def handle_method_def Let_def)
next
  show "MCP_NOT_INITIALIZED \<noteq> MCP_INVALID_SESSION" by (simp add: error_codes)
next
  fix ev :: event and data
  assume "\<not> str_falsy (str_or (ev_headers ev ''authorization'') (ev_headers ev ''Authorization''))
          \<and> get_token_claims env now
              (the (str_or (ev_headers ev ''authorization'') (ev_headers ev ''Authorization'')))
              = Inr claims
          \<and> \<not> isBase64Encoded ev \<and> ev_body ev \<noteq> []
          \<and> json_loads env (ev_body ev) = Inr data \<and> from_dict data = Inr request
          \<and> m = JStr ''notifications/cancelled'' \<and> rq_id request = JNull"
  then show "handle_post env tools rnd now ev st =
              (Inr \<lparr>statusCode = 202, headers = [(''Content-Type'', ''application/json'')],
                    body = EmptyBody\<rparr>, st)"
    by (simp add: m_def handle_post_def Let_def handle_method_def is_notification_def)
qed

theorem dispatcher_session_gate_witness:
  "handle_method sample_env sample_tools zero_rnd 10
     \<lparr>rq_method = JStr ''ping'', rq_params = JObj [], rq_id = JNum 7\<rparr> None claims_a state_a
   = (Inl (Mcp (McpError MCP_NOT_INITIALIZED
                  ''Session not initialized. Call initialize first.'')), state_a)
   \<and> handle_method sample_env sample_tools zero_rnd 10
       \<lparr>rq_method = JStr ''ping'', rq_params = JObj [], rq_id = JNum 7\<rparr> (Some ''sess-9'')
       claims_a state_a
     = (Inl (Mcp (McpError MCP_INVALID_SESSION ''Invalid or expired session'')), state_a)
   \<and> handle_method sample_env sample_tools zero_rnd 10
       \<lparr>rq_method = JStr ''notifications/cancelled'', rq_params = JObj [], rq_id = JNull\<rparr>
       None claims_a state_a
     = (Inr (JObj [], None), state_a)"
  using
    dispatcher_session_gate [where request = "\<lparr>rq_method = JStr ''ping'', rq_params = JObj [],
        rq_id = JNum 7\<rparr>" and sid_opt = None and env = sample_env and tools = sample_tools
        and rnd = zero_rnd and now = 10 and claims = claims_a and st = state_a]
    dispatcher_session_gate [where request = "\<lparr>rq_method = JStr ''ping'', rq_params = JObj [],
        rq_id = JNum 7\<rparr>" and sid_opt = "Some ''sess-9''" and env = sample_env
        and tools = sample_tools and rnd = zero_rnd and now = 10 and claims = claims_a
        and st = state_a]
    dispatcher_session_gate [where request = "\<lparr>rq_method = JStr ''notifications/cancelled'',
        rq_params = JObj [], rq_id = JNull\<rparr>" and sid_opt = None and env = sample_env
        and tools = sample_tools and rnd = zero_rnd and now = 10 and claims = claims_a
        and st = state_a]
  by (simp add: str_falsy_def state_a_def)

end
